theory Spec2Isabelle
  imports Complex_Main "HOL-Library.Word"
begin

text \<open>
  A shallow embedding of the order primitives and of the volume filter of the trading bot:
  the direction and style enumerations with their string conversions, and the filter that
  caps the volume sold per day. The first part holds the definitions, taken from the Go
  source function by function; the second part states and proves what the specification
  says about them.
\<close>

section \<open>Domain primitives of the order book (package orderbook)\<close>

text \<open>
  \<^verbatim>\<open>type OrderAction bool\<close> with \<^verbatim>\<open>ActionBuy = false\<close> and \<^verbatim>\<open>ActionSell = true\<close>.
\<close>

type_synonym OrderAction = bool

definition ActionBuy :: OrderAction where
  "ActionBuy = False"

definition ActionSell :: OrderAction where
  "ActionSell = True"

definition OrderAction_String :: "OrderAction \<Rightarrow> string" where
  "OrderAction_String a =
     (if a = ActionBuy then ''buy''
      else if a = ActionSell then ''sell''
      else ''error, unrecognized order action'')"

definition orderActionMap :: "string \<rightharpoonup> OrderAction" where
  "orderActionMap = map_of [(''buy'', ActionBuy), (''sell'', ActionSell)]"

text \<open>
  Indexing a Go map with a key it does not hold yields the zero value of the element type;
  for \<^verbatim>\<open>OrderAction\<close> (a bool) that is \<^verbatim>\<open>false\<close>.
\<close>

definition OrderActionFromString :: "string \<Rightarrow> OrderAction" where
  "OrderActionFromString s = (case orderActionMap s of Some a \<Rightarrow> a | None \<Rightarrow> False)"

text \<open>
  \<^verbatim>\<open>type OrderType int8\<close> with \<^verbatim>\<open>TypeMarket = 0\<close> and \<^verbatim>\<open>TypeLimit = 1\<close>.
\<close>

type_synonym OrderType = "8 word"

definition TypeMarket :: OrderType where
  "TypeMarket = 0"

definition TypeLimit :: OrderType where
  "TypeLimit = 1"

definition OrderType_String :: "OrderType \<Rightarrow> string" where
  "OrderType_String o' =
     (if o' = TypeMarket then ''market''
      else if o' = TypeLimit then ''limit''
      else ''error, unrecognized order type'')"

definition orderTypeMap :: "string \<rightharpoonup> OrderType" where
  "orderTypeMap = map_of [(''market'', TypeMarket), (''limit'', TypeLimit)]"

definition OrderTypeFromString :: "string \<Rightarrow> OrderType" where
  "OrderTypeFromString s = (case orderTypeMap s of Some t \<Rightarrow> t | None \<Rightarrow> 0)"

section \<open>Numbers and their text form\<close>

text \<open>
  The filter computes on \<^verbatim>\<open>float64\<close>. The embedding takes the finite values with exact
  arithmetic: a \<^verbatim>\<open>float64\<close> is a rational number, \<^verbatim>\<open>+\<close>, \<^verbatim>\<open>-\<close>, \<^verbatim>\<open>*\<close>, \<^verbatim>\<open>/\<close> and the
  comparisons are those of \<^typ>\<open>rat\<close>. Rounding of the binary format, infinities and NaN
  are outside the model.
\<close>

type_synonym float64 = rat

text \<open>
  \<^verbatim>\<open>fmt.Sprintf("%.7f", x)\<close>: sign, integer digits, a point and seven fractional digits,
  the value rounded to the nearest multiple of \<open>10\<^sup>-\<^sup>7\<close>, a tie going to the even digit.
\<close>

definition roundHalfEven :: "rat \<Rightarrow> int" where
  "roundHalfEven x =
     (let f = \<lfloor>x\<rfloor>; d = x - of_int f
      in if d < 1 / 2 then f
         else if 1 / 2 < d then f + 1
         else if even f then f else f + 1)"

text \<open>The decimal digit of a number below ten (the only numbers it is applied to).\<close>

definition digitChar :: "nat \<Rightarrow> char" where
  "digitChar d = ''0123456789'' ! d"

fun decimalDigits :: "nat \<Rightarrow> string" where
  "decimalDigits n =
     (if n < 10 then [digitChar n] else decimalDigits (n div 10) @ [digitChar (n mod 10)])"

definition padLeft :: "nat \<Rightarrow> string \<Rightarrow> string" where
  "padLeft w s = replicate (w - length s) CHR ''0'' @ s"

definition Sprintf_7f :: "float64 \<Rightarrow> string" where
  "Sprintf_7f x =
     (let n = nat (roundHalfEven (\<bar>x\<bar> * 10000000))
      in (if x < 0 then ''-'' else '''')
         @ decimalDigits (n div 10000000) @ ''.'' @ padLeft 7 (decimalDigits (n mod 10000000)))"

datatype error =
    ErrSyntax string
  | ErrIsSelling
  | ErrPrice string
  | ErrAmount string
  | ErrQuery string
  | ErrQueryType
  | ErrApplyFilter error
  | PanicNilDereference

text \<open>
  \<^verbatim>\<open>strconv.ParseFloat(s, 64)\<close> on plain decimal text: an optional sign, digits, an optional
  point and more digits, at least one digit in all. The exponent, hexadecimal, infinity
  and NaN forms that the library also reads are not modelled (they are refused here), and
  the value is the exact decimal, not the nearest binary number. The theorems about the
  filter use the outcome of the call only; the way it is computed matters for the worked
  examples and for reading back an amount written by \<open>Sprintf_7f\<close>.
\<close>

definition isDigit :: "char \<Rightarrow> bool" where
  "isDigit c = ((48::nat) \<le> of_char c \<and> (of_char c :: nat) \<le> 57)"

definition digitsValue :: "string \<Rightarrow> nat" where
  "digitsValue s = foldl (\<lambda>acc c. 10 * acc + (of_char c - 48)) 0 s"

definition parseUnsigned :: "string \<Rightarrow> rat option" where
  "parseUnsigned s =
     (let ip = takeWhile (\<lambda>c. c \<noteq> CHR ''.'') s;
          rest = dropWhile (\<lambda>c. c \<noteq> CHR ''.'') s;
          fp = (if rest = [] then [] else tl rest)
      in if list_all isDigit ip \<and> list_all isDigit fp \<and> ip @ fp \<noteq> []
         then Some (of_nat (digitsValue ip) + of_nat (digitsValue fp) / 10 ^ length fp)
         else None)"

definition ParseFloat :: "string \<Rightarrow> error + float64" where
  "ParseFloat s =
     (case s of
        [] \<Rightarrow> Inl (ErrSyntax s)
      | c # cs \<Rightarrow>
          (if c = CHR ''-'' then
             (case parseUnsigned cs of Some v \<Rightarrow> Inr (- v) | None \<Rightarrow> Inl (ErrSyntax s))
           else if c = CHR ''+'' then
             (case parseUnsigned cs of Some v \<Rightarrow> Inr v | None \<Rightarrow> Inl (ErrSyntax s))
           else
             (case parseUnsigned s of Some v \<Rightarrow> Inr v | None \<Rightarrow> Inl (ErrSyntax s))))"

section \<open>The volume filter (plugins/volumeFilter.go)\<close>

type_synonym volumeFilterMode = string

definition volumeFilterModeExact :: volumeFilterMode where
  "volumeFilterModeExact = ''exact''"

definition volumeFilterModeIgnore :: volumeFilterMode where
  "volumeFilterModeIgnore = ''ignore''"

text \<open>A nilable \<^verbatim>\<open>*float64\<close> is an option; \<open>None\<close> is the nil pointer.\<close>

record VolumeFilterConfig =
  SellBaseAssetCapInBaseUnits :: "float64 option"
  SellBaseAssetCapInQuoteUnits :: "float64 option"
  mode :: volumeFilterMode
  additionalMarketIDs :: "string list"
  optionalAccountIDs :: "string list"

record limitParameters =
  sellBaseAssetCapInBaseUnits :: "float64 option"
  sellBaseAssetCapInQuoteUnits :: "float64 option"
  lpMode :: volumeFilterMode

type_synonym Asset = string

text \<open>The fields of \<^verbatim>\<open>txnbuild.ManageSellOffer\<close> that the filter reads or writes.\<close>

record ManageSellOffer =
  Selling :: Asset
  Buying :: Asset
  Amount :: string
  Price :: string
  OfferID :: int

text \<open>
  A live offer of the account (\<^verbatim>\<open>hProtocol.Offer\<close>), as far as a filter could look at it.
\<close>

record Offer =
  ID :: int
  Seller :: string
  OfferSelling :: Asset
  OfferBuying :: Asset
  OfferAmount :: string
  OfferPrice :: string

text \<open>
  Modelled from the spec: \<^verbatim>\<open>utils.IsSelling\<close> is not part of the sources at hand. The
  specification says an operation is classified "as selling-the-base-asset or not by
  comparing its sell/buy asset pair against the filter's configured base/quote pair";
  the call site shows that the classification can fail. An operation selling base for
  quote is a sell, one selling quote for base is not, any other pair is an error.
\<close>

definition IsSelling :: "Asset \<Rightarrow> Asset \<Rightarrow> Asset \<Rightarrow> Asset \<Rightarrow> error + bool" where
  "IsSelling sdexBase sdexQuote selling buying =
     (if selling = sdexBase \<and> buying = sdexQuote then Inr True
      else if selling = sdexQuote \<and> buying = sdexBase then Inr False
      else Inl ErrIsSelling)"

text \<open>
  What one call of \<^verbatim>\<open>volumeFilterFn\<close> leaves behind. The function returns either
  \<^verbatim>\<open>opToReturn\<close>, which is the pointer \<^verbatim>\<open>op\<close> it was given (\<^verbatim>\<open>opToReturn := op\<close> copies the
  pointer, not the struct), or nil: \<open>returned\<close> tells which. \<open>opMem\<close> is the struct behind
  \<^verbatim>\<open>op\<close> after the call and \<open>tbbMem\<close> the accumulator behind \<^verbatim>\<open>dailyTBBAccumulator\<close>
  after the call.
\<close>

record fnOutcome =
  returned :: bool
  opMem :: ManageSellOffer
  tbbMem :: VolumeFilterConfig

text \<open>
  Lines 182 to 198: the check in base units. The result is \<^verbatim>\<open>keepSellingBase\<close>,
  \<^verbatim>\<open>newAmountBeingSold\<close> and the struct behind \<^verbatim>\<open>opToReturn\<close>. Reading through a nil
  pointer panics.
\<close>

definition baseUnitsCheck ::
  "VolumeFilterConfig \<Rightarrow> VolumeFilterConfig \<Rightarrow> limitParameters \<Rightarrow> float64 \<Rightarrow> ManageSellOffer
     \<Rightarrow> error + (bool \<times> float64 \<times> ManageSellOffer)" where
  "baseUnitsCheck dailyOTB dailyTBBAccumulator lp amountValueUnitsBeingSold op =
     (case sellBaseAssetCapInBaseUnits lp of
        None \<Rightarrow> Inr (True, amountValueUnitsBeingSold, op)
      | Some cap \<Rightarrow>
          (case SellBaseAssetCapInBaseUnits dailyOTB of
             None \<Rightarrow> Inl PanicNilDereference
           | Some otb \<Rightarrow>
               (case SellBaseAssetCapInBaseUnits dailyTBBAccumulator of
                  None \<Rightarrow> Inl PanicNilDereference
                | Some tbb \<Rightarrow>
                    (let projectedSoldInBaseUnits = otb + tbb + amountValueUnitsBeingSold;
                         keepSellingBase = (projectedSoldInBaseUnits \<le> cap)
                     in if lpMode lp = volumeFilterModeExact \<and> \<not> keepSellingBase
                        then (let newAmount = cap - otb - tbb
                              in if 0 < newAmount
                                 then Inr (True, newAmount, op\<lparr>Amount := Sprintf_7f newAmount\<rparr>)
                                 else Inr (keepSellingBase, amountValueUnitsBeingSold, op))
                        else Inr (keepSellingBase, amountValueUnitsBeingSold, op)))))"

text \<open>
  Lines 200 to 216: the check in quote units, on the amount the base check produced.
  Where \<^verbatim>\<open>sellPrice\<close> is zero the Go quotient is an infinity or NaN and the HOL quotient
  is zero; lemma \<open>quote_trim_price_zero\<close> below shows that the branch taken is the same.
\<close>

definition quoteUnitsCheck ::
  "VolumeFilterConfig \<Rightarrow> VolumeFilterConfig \<Rightarrow> limitParameters \<Rightarrow> float64 \<Rightarrow> float64
     \<Rightarrow> ManageSellOffer \<Rightarrow> error + (bool \<times> float64 \<times> ManageSellOffer)" where
  "quoteUnitsCheck dailyOTB dailyTBBAccumulator lp sellPrice newAmountBeingSold opToReturn =
     (case sellBaseAssetCapInQuoteUnits lp of
        None \<Rightarrow> Inr (True, newAmountBeingSold, opToReturn)
      | Some cap \<Rightarrow>
          (case SellBaseAssetCapInQuoteUnits dailyOTB of
             None \<Rightarrow> Inl PanicNilDereference
           | Some otb \<Rightarrow>
               (case SellBaseAssetCapInQuoteUnits dailyTBBAccumulator of
                  None \<Rightarrow> Inl PanicNilDereference
                | Some tbb \<Rightarrow>
                    (let projectedSoldInQuoteUnits = otb + tbb + newAmountBeingSold * sellPrice;
                         keepSellingQuote = (projectedSoldInQuoteUnits \<le> cap)
                     in if lpMode lp = volumeFilterModeExact \<and> \<not> keepSellingQuote
                        then (let newAmount = (cap - otb - tbb) / sellPrice
                              in if 0 < newAmount
                                 then Inr (True, newAmount,
                                           opToReturn\<lparr>Amount := Sprintf_7f newAmount\<rparr>)
                                 else Inr (keepSellingQuote, newAmountBeingSold, opToReturn))
                        else Inr (keepSellingQuote, newAmountBeingSold, opToReturn)))))"

text \<open>
  Lines 218 to 223: the two updates of the accumulator, each through a pointer that
  may be nil.
\<close>

definition addToTBB :: "VolumeFilterConfig \<Rightarrow> float64 \<Rightarrow> float64 \<Rightarrow> error + VolumeFilterConfig" where
  "addToTBB dailyTBBAccumulator newAmountBeingSold sellPrice =
     (case SellBaseAssetCapInBaseUnits dailyTBBAccumulator of
        None \<Rightarrow> Inl PanicNilDereference
      | Some tb \<Rightarrow>
          (case SellBaseAssetCapInQuoteUnits dailyTBBAccumulator of
             None \<Rightarrow> Inl PanicNilDereference
           | Some tq \<Rightarrow>
               Inr (dailyTBBAccumulator
                      \<lparr>SellBaseAssetCapInBaseUnits := Some (tb + newAmountBeingSold),
                       SellBaseAssetCapInQuoteUnits :=
                         Some (tq + newAmountBeingSold * sellPrice)\<rparr>)))"

definition volumeFilterFn ::
  "VolumeFilterConfig \<Rightarrow> VolumeFilterConfig \<Rightarrow> ManageSellOffer \<Rightarrow> Asset \<Rightarrow> Asset
     \<Rightarrow> limitParameters \<Rightarrow> error + fnOutcome" where
  "volumeFilterFn dailyOTB dailyTBBAccumulator op baseAsset quoteAsset lp =
     (case IsSelling baseAsset quoteAsset (Selling op) (Buying op) of
        Inl e \<Rightarrow> Inl ErrIsSelling
      | Inr isSell \<Rightarrow>
     (case ParseFloat (Price op) of
        Inl e \<Rightarrow> Inl (ErrPrice (Price op))
      | Inr sellPrice \<Rightarrow>
     (case ParseFloat (Amount op) of
        Inl e \<Rightarrow> Inl (ErrAmount (Amount op))
      | Inr amountValueUnitsBeingSold \<Rightarrow>
          if isSell then
            (case baseUnitsCheck dailyOTB dailyTBBAccumulator lp amountValueUnitsBeingSold op of
               Inl e \<Rightarrow> Inl e
             | Inr (keepSellingBase, amountAfterBase, opAfterBase) \<Rightarrow>
            (case quoteUnitsCheck dailyOTB dailyTBBAccumulator lp sellPrice amountAfterBase
                    opAfterBase of
               Inl e \<Rightarrow> Inl e
             | Inr (keepSellingQuote, newAmountBeingSold, opToReturn) \<Rightarrow>
                 if keepSellingBase \<and> keepSellingQuote then
                   (case addToTBB dailyTBBAccumulator newAmountBeingSold sellPrice of
                      Inl e \<Rightarrow> Inl e
                    | Inr tbb' \<Rightarrow> Inr \<lparr>returned = True, opMem = opToReturn, tbbMem = tbb'\<rparr>)
                 else Inr \<lparr>returned = False, opMem = opToReturn, tbbMem = dailyTBBAccumulator\<rparr>))
          else Inr \<lparr>returned = False, opMem = op, tbbMem = dailyTBBAccumulator\<rparr>)))"

text \<open>
  The two accumulators that \<^verbatim>\<open>Apply\<close> builds (lines 134 to 144): a
  \<^verbatim>\<open>VolumeFilterConfig\<close> whose two pointers are set and whose other fields are zero.
\<close>

definition dailyVolumes :: "float64 \<Rightarrow> float64 \<Rightarrow> VolumeFilterConfig" where
  "dailyVolumes baseUnits quoteUnits =
     \<lparr>SellBaseAssetCapInBaseUnits = Some baseUnits,
      SellBaseAssetCapInQuoteUnits = Some quoteUnits,
      mode = [],
      additionalMarketIDs = [],
      optionalAccountIDs = []\<rparr>"

record DailyVolume =
  BaseVol :: float64
  QuoteVol :: float64

text \<open>
  \<^verbatim>\<open>QueryRow\<close> returns an \<^verbatim>\<open>interface{}\<close>: either a \<^verbatim>\<open>*queries.DailyVolume\<close> or a value
  of some other type, for which the type assertion of line 125 fails.
\<close>

datatype queryResult = DailyVolumeRow DailyVolume | OtherRow

text \<open>
  The filter. The query collaborator is the function from the date key to what
  \<^verbatim>\<open>QueryRow\<close> returns for it.
\<close>

record volumeFilter =
  name :: string
  configValue :: string
  baseAsset :: Asset
  quoteAsset :: Asset
  config :: VolumeFilterConfig
  dailyVolumeByDateQuery :: "string \<Rightarrow> error + queryResult"

text \<open>
  Lines 146 to 153: the closure handed to \<^verbatim>\<open>filterOps\<close>. It captures the two
  accumulators; the model passes them, and returns the operation that the closure
  returns (\<open>None\<close> for nil) with the accumulator it leaves.
\<close>

definition innerFn ::
  "volumeFilter \<Rightarrow> VolumeFilterConfig \<Rightarrow> VolumeFilterConfig \<Rightarrow> ManageSellOffer
     \<Rightarrow> error + (ManageSellOffer option \<times> VolumeFilterConfig)" where
  "innerFn f dailyOTB dailyTBB op =
     (case volumeFilterFn dailyOTB dailyTBB op (baseAsset f) (quoteAsset f)
             \<lparr>sellBaseAssetCapInBaseUnits = SellBaseAssetCapInBaseUnits (config f),
              sellBaseAssetCapInQuoteUnits = SellBaseAssetCapInQuoteUnits (config f),
              lpMode = mode (config f)\<rparr> of
        Inl e \<Rightarrow> Inl e
      | Inr r \<Rightarrow> Inr (if returned r then Some (opMem r) else None, tbbMem r))"

text \<open>
  Modelled from the spec: \<^verbatim>\<open>filterOps\<close> (plugins/submitFilter.go) is not part of the sources
  at hand. The specification describes it as the shared helper that "classifies each
  operation as selling-the-base-asset or not by comparing its sell/buy asset pair against
  the filter's configured base/quote pair, then invokes a caller-supplied per-operation
  function only on sell-side operations, passing buy-side operations through unchanged",
  and that "folds a per-operation transform over the batch, discarding operations the
  transform rejects"; an error aborts the whole batch. The state of the closure is passed
  from one operation to the next and returned at the end.
\<close>

fun filterOps ::
  "string \<Rightarrow> Asset \<Rightarrow> Asset \<Rightarrow> Offer list \<Rightarrow> Offer list \<Rightarrow> ManageSellOffer list
     \<Rightarrow> ('s \<Rightarrow> ManageSellOffer \<Rightarrow> error + (ManageSellOffer option \<times> 's)) \<Rightarrow> 's
     \<Rightarrow> error + (ManageSellOffer list \<times> 's)" where
  "filterOps filterName b q sellingOffers buyingOffers [] fn s = Inr ([], s)"
| "filterOps filterName b q sellingOffers buyingOffers (op # ops) fn s =
     (case IsSelling b q (Selling op) (Buying op) of
        Inl e \<Rightarrow> Inl e
      | Inr isSell \<Rightarrow>
          if isSell then
            (case fn s op of
               Inl e \<Rightarrow> Inl e
             | Inr (newOp, s1) \<Rightarrow>
                 (case filterOps filterName b q sellingOffers buyingOffers ops fn s1 of
                    Inl e \<Rightarrow> Inl e
                  | Inr (out, s2) \<Rightarrow>
                      Inr ((case newOp of None \<Rightarrow> out | Some op' \<Rightarrow> op' # out), s2)))
          else
            (case filterOps filterName b q sellingOffers buyingOffers ops fn s of
               Inl e \<Rightarrow> Inl e
             | Inr (out, s2) \<Rightarrow> Inr (op # out, s2)))"

text \<open>
  One pass of the filter over a batch: line 154 with the closure of lines 146 to 153,
  from a given on-the-books volume and a given state of the accumulator. The result is
  the filtered batch and the accumulator at the end of the pass.
\<close>

definition filterPass ::
  "volumeFilter \<Rightarrow> VolumeFilterConfig \<Rightarrow> VolumeFilterConfig \<Rightarrow> Offer list \<Rightarrow> Offer list
     \<Rightarrow> ManageSellOffer list \<Rightarrow> error + (ManageSellOffer list \<times> VolumeFilterConfig)" where
  "filterPass f dailyOTB dailyTBB sellingOffers buyingOffers ops =
     filterOps (name f) (baseAsset f) (quoteAsset f) sellingOffers buyingOffers ops
       (innerFn f dailyOTB) dailyTBB"

text \<open>
  \<^verbatim>\<open>Apply\<close> (lines 118 to 159). \<open>dateString\<close> is the formatted current date. The first
  component of the result lists the date keys with which \<^verbatim>\<open>QueryRow\<close> was called during
  the invocation, the second is what \<^verbatim>\<open>Apply\<close> returns.
\<close>

definition Apply ::
  "volumeFilter \<Rightarrow> string \<Rightarrow> ManageSellOffer list \<Rightarrow> Offer list \<Rightarrow> Offer list
     \<Rightarrow> string list \<times> (error + ManageSellOffer list)" where
  "Apply f dateString ops sellingOffers buyingOffers =
     ([dateString],
      (case dailyVolumeByDateQuery f dateString of
         Inl e \<Rightarrow> Inl (ErrQuery dateString)
       | Inr queryResult \<Rightarrow>
           (case queryResult of
              OtherRow \<Rightarrow> Inl ErrQueryType
            | DailyVolumeRow dailyValuesBaseSold \<Rightarrow>
                (case filterPass f
                        (dailyVolumes (BaseVol dailyValuesBaseSold) (QuoteVol dailyValuesBaseSold))
                        (dailyVolumes 0 0) sellingOffers buyingOffers ops of
                   Inl e \<Rightarrow> Inl (ErrApplyFilter e)
                 | Inr (out, dailyTBB) \<Rightarrow> Inr out))))"


text \<open>Inputs for the worked examples: a pair XLM/USD, one offer on each side, a filter.\<close>

definition exampleSell :: "string \<Rightarrow> string \<Rightarrow> ManageSellOffer" where
  "exampleSell amount price =
     \<lparr>Selling = ''XLM'', Buying = ''USD'', Amount = amount, Price = price, OfferID = 0\<rparr>"

definition exampleBuy :: "string \<Rightarrow> string \<Rightarrow> ManageSellOffer" where
  "exampleBuy amount price =
     \<lparr>Selling = ''USD'', Buying = ''XLM'', Amount = amount, Price = price, OfferID = 0\<rparr>"

definition exampleFilter ::
  "float64 option \<Rightarrow> float64 option \<Rightarrow> volumeFilterMode \<Rightarrow> (string \<Rightarrow> error + queryResult)
     \<Rightarrow> volumeFilter" where
  "exampleFilter baseCap quoteCap m query =
     \<lparr>name = ''volumeFilter'', configValue = ''volume/sell/base'',
      baseAsset = ''XLM'', quoteAsset = ''USD'',
      config = \<lparr>SellBaseAssetCapInBaseUnits = baseCap, SellBaseAssetCapInQuoteUnits = quoteCap,
                mode = m, additionalMarketIDs = [], optionalAccountIDs = []\<rparr>,
      dailyVolumeByDateQuery = query\<rparr>"

definition exampleQuery :: "float64 \<Rightarrow> float64 \<Rightarrow> string \<Rightarrow> error + queryResult" where
  "exampleQuery baseVol quoteVol dateString =
     Inr (DailyVolumeRow \<lparr>BaseVol = baseVol, QuoteVol = quoteVol\<rparr>)"

declare decimalDigits.simps [simp del]

section \<open>Text and number: evaluation and the round trip of a formatted amount\<close>

lemma decimalDigits_small: "n < 10 \<Longrightarrow> decimalDigits n = [digitChar n]"
  by (simp add: decimalDigits.simps)

lemma decimalDigits_big:
  "10 \<le> n \<Longrightarrow> decimalDigits n = decimalDigits (n div 10) @ [digitChar (n mod 10)]"
  by (subst decimalDigits.simps) simp

lemma digitChar_eval:
  "digitChar 0 = CHR ''0''" "digitChar 1 = CHR ''1''" "digitChar 2 = CHR ''2''"
  "digitChar 3 = CHR ''3''" "digitChar 4 = CHR ''4''" "digitChar 5 = CHR ''5''"
  "digitChar 6 = CHR ''6''" "digitChar 7 = CHR ''7''" "digitChar 8 = CHR ''8''"
  "digitChar 9 = CHR ''9''"
  by (simp_all add: digitChar_def)

lemma zeros_numeral:
  "replicate (numeral k) CHR ''0'' = CHR ''0'' # replicate (numeral k - 1) CHR ''0''"
  by (simp add: numeral_eq_Suc)

lemma roundHalfEven_numeral: "roundHalfEven (numeral k) = numeral k"
  by (simp add: roundHalfEven_def)

























lemma roundHalfEven_near:
  assumes "\<bar>y - of_int k\<bar> < 1 / 2"
  shows "roundHalfEven y = k"
proof (cases "of_int k \<le> y")
  case True
  with assms have "\<lfloor>y\<rfloor> = k"
    by (simp add: floor_eq_iff abs_less_iff)
  with assms True show ?thesis
    by (simp add: roundHalfEven_def Let_def abs_less_iff)
next
  case False
  with assms have "\<lfloor>y\<rfloor> = k - 1"
    by (simp add: floor_eq_iff abs_less_iff)
  with assms False show ?thesis
    by (simp add: roundHalfEven_def Let_def abs_less_iff)
qed

lemmas eval_simps = digitChar_eval zeros_numeral Sprintf_7f_def padLeft_def
  decimalDigits_small decimalDigits_big roundHalfEven_numeral ParseFloat_def parseUnsigned_def
  isDigit_def digitsValue_def IsSelling_def Let_def

lemmas fn_defs = volumeFilterFn_def baseUnitsCheck_def quoteUnitsCheck_def addToTBB_def
  dailyVolumes_def

section \<open>Facts about one call of the per-operation function\<close>

lemma quote_trim_price_zero:
  fixes cap :: rat
  assumes "sellPrice = 0" and "\<not> otb + tbb + newAmountBeingSold * sellPrice \<le> cap"
  shows "cap - otb - tbb < 0 \<and> \<not> 0 < (cap - otb - tbb) / sellPrice"
  using assms by simp



lemma volumeFilterFn_not_selling:
  assumes "IsSelling b q (Selling op) (Buying op) = Inr False"
    and "ParseFloat (Price op) = Inr p"
    and "ParseFloat (Amount op) = Inr a"
  shows "volumeFilterFn otb tbb op b q lp = Inr \<lparr>returned = False, opMem = op, tbbMem = tbb\<rparr>"
  using assms by (simp add: volumeFilterFn_def)




section \<open>Facts about one pass over a batch\<close>

lemma volumeFilterFn_assets:
  assumes "volumeFilterFn otb tbb op b q lp = Inr r"
  shows "Selling (opMem r) = Selling op \<and> Buying (opMem r) = Buying op"
  using assms
  by (auto simp: volumeFilterFn_def baseUnitsCheck_def quoteUnitsCheck_def Let_def
           split: sum.splits if_splits option.splits)

lemma innerFn_assets:
  assumes "innerFn f otb tbb op = Inr (Some op', tbb1)"
  shows "Selling op' = Selling op \<and> Buying op' = Buying op"
  using assms volumeFilterFn_assets
  by (fastforce simp: innerFn_def split: sum.splits if_splits)











section \<open>Round trip and unrecognised names\<close>

text \<open>
  C9: for every direction value, and for the two style values \<open>TypeMarket\<close> and
  \<open>TypeLimit\<close>, parsing the string that the stringer produces gives the value back.
\<close>

theorem fromString_String_roundtrip:
  "OrderActionFromString (OrderAction_String a) = a
   \<and> (t = TypeMarket \<or> t = TypeLimit \<longrightarrow> OrderTypeFromString (OrderType_String t) = t)"
  by (cases a)
     (auto simp: OrderActionFromString_def OrderAction_String_def orderActionMap_def
        ActionBuy_def ActionSell_def OrderTypeFromString_def OrderType_String_def
        orderTypeMap_def TypeMarket_def TypeLimit_def)

theorem fromString_String_roundtrip_witness:
  "OrderActionFromString (OrderAction_String ActionSell) = ActionSell
   \<and> (TypeLimit = TypeMarket \<or> TypeLimit = TypeLimit)
   \<and> OrderTypeFromString (OrderType_String TypeLimit) = TypeLimit"
  using fromString_String_roundtrip [of ActionSell TypeLimit] by simp

text \<open>
  C1, as stated: a string that is no direction or style name should give a result that
  differs from every valid value. It does not: \<open>hold\<close> parses to the same value as
  \<open>buy\<close>, and \<open>stop\<close> to the same value as \<open>market\<close>.
\<close>

theorem fromString_unrecognized_counterexample:
  "OrderActionFromString ''hold'' = OrderActionFromString ''buy''
   \<and> OrderActionFromString ''hold'' = ActionBuy
   \<and> OrderTypeFromString ''stop'' = OrderTypeFromString ''market''
   \<and> OrderTypeFromString ''stop'' = TypeMarket"
  by (simp add: OrderActionFromString_def orderActionMap_def ActionBuy_def ActionSell_def
        OrderTypeFromString_def orderTypeMap_def TypeMarket_def TypeLimit_def)

text \<open>
  C1, amended: for every string that is no direction name \<open>OrderActionFromString\<close>
  returns \<open>ActionBuy\<close>, and for every string that is no style name
  \<open>OrderTypeFromString\<close> returns \<open>TypeMarket\<close>: the zero value of the result type,
  which is a valid value, and no error.
\<close>

theorem fromString_unrecognized_zero_value:
  "(s \<noteq> ''buy'' \<and> s \<noteq> ''sell'' \<longrightarrow> OrderActionFromString s = ActionBuy)
   \<and> (s \<noteq> ''market'' \<and> s \<noteq> ''limit'' \<longrightarrow> OrderTypeFromString s = TypeMarket)"
  by (simp add: OrderActionFromString_def orderActionMap_def ActionBuy_def
        OrderTypeFromString_def orderTypeMap_def TypeMarket_def)

theorem fromString_unrecognized_zero_value_witness:
  "''hold'' \<noteq> ''buy'' \<and> ''hold'' \<noteq> ''sell'' \<and> OrderActionFromString ''hold'' = ActionBuy
   \<and> ''hold'' \<noteq> ''market'' \<and> ''hold'' \<noteq> ''limit'' \<and> OrderTypeFromString ''hold'' = TypeMarket"
  using fromString_unrecognized_zero_value [of "''hold''"] by simp

section \<open>One call of the per-operation function\<close>

text \<open>
  C7: in ignore mode, a sell operation whose amount as submitted takes the projected
  volume over a configured cap (in base units, or in quote units) is dropped: the
  function returns nil, the operation is left as it was and so is the accumulator.
\<close>

theorem ignore_mode_drops:
  assumes "IsSelling b q (Selling op) (Buying op) = Inr True"
    and "ParseFloat (Price op) = Inr p"
    and "ParseFloat (Amount op) = Inr a"
    and "lpMode lp = volumeFilterModeIgnore"
    and "(\<exists>cap. sellBaseAssetCapInBaseUnits lp = Some cap \<and> cap < ob + tb + a)
         \<or> (\<exists>cap. sellBaseAssetCapInQuoteUnits lp = Some cap \<and> cap < oq + tq + a * p)"
  shows "volumeFilterFn (dailyVolumes ob oq) (dailyVolumes tb tq) op b q lp
           = Inr \<lparr>returned = False, opMem = op, tbbMem = dailyVolumes tb tq\<rparr>"
  using assms
  by (auto simp: fn_defs volumeFilterModeIgnore_def volumeFilterModeExact_def Let_def
           split: option.splits)

theorem ignore_mode_drops_witness:
  "volumeFilterFn (dailyVolumes 80 800) (dailyVolumes 0 0)
     \<lparr>Selling = ''XLM'', Buying = ''USD'', Amount = ''30'', Price = ''10'', OfferID = 0\<rparr>
     ''XLM'' ''USD''
     \<lparr>sellBaseAssetCapInBaseUnits = Some 100, sellBaseAssetCapInQuoteUnits = None,
      lpMode = volumeFilterModeIgnore\<rparr>
   = Inr \<lparr>returned = False,
          opMem = \<lparr>Selling = ''XLM'', Buying = ''USD'', Amount = ''30'', Price = ''10'',
                   OfferID = 0\<rparr>,
          tbbMem = dailyVolumes 0 0\<rparr>"
  using ignore_mode_drops [of "''XLM''" "''USD''"
      "\<lparr>Selling = ''XLM'', Buying = ''USD'', Amount = ''30'', Price = ''10'', OfferID = 0\<rparr>"
      10 30
      "\<lparr>sellBaseAssetCapInBaseUnits = Some 100, sellBaseAssetCapInQuoteUnits = None,
        lpMode = volumeFilterModeIgnore\<rparr>" 80 0 800 0]
  by (simp add: eval_simps)

text \<open>
  Exact mode with a cap in base units only: an operation under the cap is kept as it is,
  one over the cap is rewritten to the headroom when the headroom is positive and dropped
  otherwise.
\<close>

lemma exact_mode_base_cap_outcomes:
  assumes "IsSelling b q (Selling op) (Buying op) = Inr True"
    and "ParseFloat (Price op) = Inr p"
    and "ParseFloat (Amount op) = Inr a"
    and "lpMode lp = volumeFilterModeExact"
    and "sellBaseAssetCapInBaseUnits lp = Some cb"
    and "sellBaseAssetCapInQuoteUnits lp = None"
  shows "volumeFilterFn (dailyVolumes ob oq) (dailyVolumes tb tq) op b q lp =
           Inr (if ob + tb + a \<le> cb
                then \<lparr>returned = True, opMem = op,
                      tbbMem = dailyVolumes (tb + a) (tq + a * p)\<rparr>
                else if 0 < cb - ob - tb
                then \<lparr>returned = True, opMem = op\<lparr>Amount := Sprintf_7f (cb - ob - tb)\<rparr>,
                      tbbMem = dailyVolumes (tb + (cb - ob - tb)) (tq + (cb - ob - tb) * p)\<rparr>
                else \<lparr>returned = False, opMem = op, tbbMem = dailyVolumes tb tq\<rparr>)"
  using assms by (auto simp: fn_defs Let_def)

text \<open>
  C2: in exact mode an operation should never be rewritten to a zero amount. The test
  \<^verbatim>\<open>newAmount > 0\<close> is made on the headroom, the amount written is the headroom rounded
  to seven fractional digits. With a cap of 100 base units and \<open>100 - 2\<^sup>-\<^sup>3\<^sup>0\<close> units on
  the books, the headroom \<open>2\<^sup>-\<^sup>3\<^sup>0\<close> passes the test and its text is \<open>0.0000000\<close>: the
  operation is kept, and its amount is zero.
\<close>

theorem exact_trim_zero_amount:
  "volumeFilterFn (dailyVolumes (100 - 1 / 2 ^ 30) 0) (dailyVolumes 0 0)
     \<lparr>Selling = ''XLM'', Buying = ''USD'', Amount = ''1'', Price = ''1'', OfferID = 0\<rparr>
     ''XLM'' ''USD''
     \<lparr>sellBaseAssetCapInBaseUnits = Some 100, sellBaseAssetCapInQuoteUnits = None,
      lpMode = volumeFilterModeExact\<rparr>
   = Inr \<lparr>returned = True,
          opMem = \<lparr>Selling = ''XLM'', Buying = ''USD'', Amount = ''0.0000000'', Price = ''1'',
                   OfferID = 0\<rparr>,
          tbbMem = dailyVolumes (1 / 2 ^ 30) (1 / 2 ^ 30)\<rparr>"
proof -
  have "roundHalfEven (78125 / 8388608) = 0"
    using roundHalfEven_near [of "78125 / 8388608" 0] by simp
  then show ?thesis
    by (simp add: fn_defs eval_simps)
qed

text \<open>
  C5: with both caps configured, the outcome of a call on a sell operation is that of the
  base-units check followed by the quote-units check, where the projected quote volume is
  computed from the amount that the base check leaves (the headroom in base units when
  the base check trimmed, the submitted amount otherwise).
\<close>

theorem both_caps_base_then_quote:
  assumes "IsSelling b q (Selling op) (Buying op) = Inr True"
    and "ParseFloat (Price op) = Inr p"
    and "ParseFloat (Amount op) = Inr a"
    and "sellBaseAssetCapInBaseUnits lp = Some cb"
    and "sellBaseAssetCapInQuoteUnits lp = Some cq"
    and "exact = (lpMode lp = volumeFilterModeExact)"
    and "trimBase = (exact \<and> cb < ob + tb + a \<and> 0 < cb - ob - tb)"
    and "keepBase = (ob + tb + a \<le> cb \<or> trimBase)"
    and "amountAfterBase = (if trimBase then cb - ob - tb else a)"
    and "projectedQuote = oq + tq + amountAfterBase * p"
    and "trimQuote = (exact \<and> cq < projectedQuote \<and> 0 < (cq - oq - tq) / p)"
    and "keepQuote = (projectedQuote \<le> cq \<or> trimQuote)"
    and "finalAmount = (if trimQuote then (cq - oq - tq) / p else amountAfterBase)"
  shows "volumeFilterFn (dailyVolumes ob oq) (dailyVolumes tb tq) op b q lp
           = Inr \<lparr>returned = (keepBase \<and> keepQuote),
                  opMem = (if trimBase \<or> trimQuote then op\<lparr>Amount := Sprintf_7f finalAmount\<rparr>
                           else op),
                  tbbMem = (if keepBase \<and> keepQuote
                            then dailyVolumes (tb + finalAmount) (tq + finalAmount * p)
                            else dailyVolumes tb tq)\<rparr>"
  using assms
  by (auto simp: fn_defs Let_def)

theorem both_caps_base_then_quote_witness:
  "volumeFilterFn (dailyVolumes 80 800) (dailyVolumes 0 0)
     \<lparr>Selling = ''XLM'', Buying = ''USD'', Amount = ''30'', Price = ''10'', OfferID = 0\<rparr>
     ''XLM'' ''USD''
     \<lparr>sellBaseAssetCapInBaseUnits = Some 100, sellBaseAssetCapInQuoteUnits = Some 1050,
      lpMode = volumeFilterModeExact\<rparr>
   = Inr \<lparr>returned = True,
          opMem = \<lparr>Selling = ''XLM'', Buying = ''USD'', Amount = ''20.0000000'', Price = ''10'',
                   OfferID = 0\<rparr>,
          tbbMem = dailyVolumes 20 200\<rparr>
   \<and> \<not> (800 + 0 + 30 * 10 \<le> (1050::rat))"
proof -
  have "volumeFilterFn (dailyVolumes 80 800) (dailyVolumes 0 0)
     \<lparr>Selling = ''XLM'', Buying = ''USD'', Amount = ''30'', Price = ''10'', OfferID = 0\<rparr>
     ''XLM'' ''USD''
     \<lparr>sellBaseAssetCapInBaseUnits = Some 100, sellBaseAssetCapInQuoteUnits = Some 1050,
      lpMode = volumeFilterModeExact\<rparr>
   = Inr \<lparr>returned = (True \<and> True),
          opMem = (if True \<or> False
                   then \<lparr>Selling = ''XLM'', Buying = ''USD'', Amount = ''30'', Price = ''10'',
                          OfferID = 0\<rparr>\<lparr>Amount := Sprintf_7f 20\<rparr>
                   else \<lparr>Selling = ''XLM'', Buying = ''USD'', Amount = ''30'', Price = ''10'',
                          OfferID = 0\<rparr>),
          tbbMem = (if True \<and> True then dailyVolumes (0 + 20) (0 + 20 * 10)
                    else dailyVolumes 0 0)\<rparr>"
    by (rule both_caps_base_then_quote [where p = 10 and a = 30 and cb = 100 and cq = 1050
          and exact = True and trimBase = True and keepBase = True and amountAfterBase = 20
          and projectedQuote = 1000 and trimQuote = False and keepQuote = True
          and finalAmount = 20 and ob = 80 and oq = 800])
       (simp_all add: eval_simps)
  then show ?thesis
    by (simp add: eval_simps)
qed

text \<open>
  C10: in exact mode the rewrite of the amount is made through the pointer that the caller
  passed. When the base-units check trims and the quote-units check then rejects, the
  function returns nil and the caller's operation is left with the trimmed amount.
\<close>

theorem exact_trim_stays_on_dropped_operation:
  assumes "IsSelling b q (Selling op) (Buying op) = Inr True"
    and "ParseFloat (Price op) = Inr p"
    and "ParseFloat (Amount op) = Inr a"
    and "lpMode lp = volumeFilterModeExact"
    and "sellBaseAssetCapInBaseUnits lp = Some cb"
    and "sellBaseAssetCapInQuoteUnits lp = Some cq"
    and "cb < ob + tb + a" and "0 < cb - ob - tb"
    and "cq < oq + tq + (cb - ob - tb) * p" and "(cq - oq - tq) / p \<le> 0"
  shows "volumeFilterFn (dailyVolumes ob oq) (dailyVolumes tb tq) op b q lp
           = Inr \<lparr>returned = False, opMem = op\<lparr>Amount := Sprintf_7f (cb - ob - tb)\<rparr>,
                  tbbMem = dailyVolumes tb tq\<rparr>"
  using assms
  by (auto simp: fn_defs Let_def split: option.splits)

theorem exact_trim_stays_on_dropped_operation_witness:
  "volumeFilterFn (dailyVolumes 80 800) (dailyVolumes 0 0)
     \<lparr>Selling = ''XLM'', Buying = ''USD'', Amount = ''30'', Price = ''10'', OfferID = 0\<rparr>
     ''XLM'' ''USD''
     \<lparr>sellBaseAssetCapInBaseUnits = Some 100, sellBaseAssetCapInQuoteUnits = Some 500,
      lpMode = volumeFilterModeExact\<rparr>
   = Inr \<lparr>returned = False,
          opMem = \<lparr>Selling = ''XLM'', Buying = ''USD'', Amount = ''20.0000000'', Price = ''10'',
                   OfferID = 0\<rparr>,
          tbbMem = dailyVolumes 0 0\<rparr>"
  using exact_trim_stays_on_dropped_operation [of "''XLM''" "''USD''"
      "\<lparr>Selling = ''XLM'', Buying = ''USD'', Amount = ''30'', Price = ''10'', OfferID = 0\<rparr>"
      10 30
      "\<lparr>sellBaseAssetCapInBaseUnits = Some 100, sellBaseAssetCapInQuoteUnits = Some 500,
        lpMode = volumeFilterModeExact\<rparr>" 100 500 80 0 800 0]
  by (simp add: eval_simps)

section \<open>One pass over a batch, and \<^verbatim>\<open>Apply\<close>\<close>

lemmas example_defs = exampleSell_def exampleBuy_def exampleFilter_def filterPass_def innerFn_def










lemma filterOps_buy_side:
  assumes "\<And>s op op' s'. fn s op = Inr (Some op', s')
             \<Longrightarrow> Selling op' = Selling op \<and> Buying op' = Buying op"
    and "filterOps filterName b q so bo ops fn s = Inr (out, sF)"
  shows "filter (\<lambda>op. IsSelling b q (Selling op) (Buying op) = Inr False) out
           = filter (\<lambda>op. IsSelling b q (Selling op) (Buying op) = Inr False) ops"
  using assms(2)
proof (induction ops arbitrary: s out)
  case Nil
  then show ?case by simp
next
  case (Cons op ops)
  from Cons.prems obtain isSell where
    cls: "IsSelling b q (Selling op) (Buying op) = Inr isSell"
    by (auto split: sum.splits)
  show ?case
  proof (cases isSell)
    case False
    with Cons.prems cls obtain out' where
      "filterOps filterName b q so bo ops fn s = Inr (out', sF)" and "out = op # out'"
      by (auto split: sum.splits)
    with Cons.IH [of s out'] cls False show ?thesis by simp
  next
    case True
    with Cons.prems cls obtain newOp s1 out' where
      step: "fn s op = Inr (newOp, s1)"
      and rest: "filterOps filterName b q so bo ops fn s1 = Inr (out', sF)"
      and out: "out = (case newOp of None \<Rightarrow> out' | Some op' \<Rightarrow> op' # out')"
      by (auto split: sum.splits)
    show ?thesis
    proof (cases newOp)
      case None
      with Cons.IH [OF rest] out cls True show ?thesis by simp
    next
      case (Some op')
      with step assms(1) have "Selling op' = Selling op \<and> Buying op' = Buying op"
        by blast
      with Cons.IH [OF rest] out cls True Some show ?thesis by simp
    qed
  qed
qed

text \<open>
  C4: when \<^verbatim>\<open>Apply\<close> returns a batch, the operations of the input that are classified as
  not selling the base asset are in the output, unchanged and in the same order, and no
  other operation of the output is classified so; this holds for every filter, whatever
  its caps and its mode. (The helper does not hand these operations to the per-operation
  function; by \<open>volumeFilterFn_not_selling\<close> that function would return nil for them.)
\<close>

theorem buy_side_passes_through:
  assumes "snd (Apply f dateString ops so bo) = Inr out"
  shows "filter (\<lambda>op. IsSelling (baseAsset f) (quoteAsset f) (Selling op) (Buying op) = Inr False)
           out
         = filter (\<lambda>op. IsSelling (baseAsset f) (quoteAsset f) (Selling op) (Buying op) = Inr False)
             ops"
proof -
  from assms obtain otb tbbF where
    "filterOps (name f) (baseAsset f) (quoteAsset f) so bo ops
       (innerFn f otb) (dailyVolumes 0 0) = Inr (out, tbbF)"
    by (auto simp: Apply_def filterPass_def split: sum.splits queryResult.splits)
  then show ?thesis
    by (rule filterOps_buy_side [rotated]) (rule innerFn_assets)
qed

theorem buy_side_passes_through_witness:
  "filter (\<lambda>op. IsSelling ''XLM'' ''USD'' (Selling op) (Buying op) = Inr False)
      [exampleSell ''10'' ''1'', exampleBuy ''3'' ''1'', exampleSell ''5.0000000'' ''1'']
   = filter (\<lambda>op. IsSelling ''XLM'' ''USD'' (Selling op) (Buying op) = Inr False)
      [exampleSell ''10'' ''1'', exampleBuy ''3'' ''1'', exampleSell ''10'' ''1'',
       exampleSell ''10'' ''1'']"
proof -
  have "snd (Apply (exampleFilter (Some 15) None volumeFilterModeExact (exampleQuery 0 0))
               ''2020-01-01''
               [exampleSell ''10'' ''1'', exampleBuy ''3'' ''1'', exampleSell ''10'' ''1'',
                exampleSell ''10'' ''1''] [] [])
          = Inr [exampleSell ''10'' ''1'', exampleBuy ''3'' ''1'', exampleSell ''5.0000000'' ''1'']"
    by (simp add: Apply_def exampleQuery_def example_defs fn_defs eval_simps)
  from buy_side_passes_through [OF this] show ?thesis
    by (simp add: exampleFilter_def)
qed





section \<open>The scenarios of the specification\<close>

text \<open>
  Scenario A: 80 base units on the books, a cap of 100, exact mode, one sell of 30 at
  price 10: the operation is kept with the amount \<open>20.0000000\<close>.
\<close>

lemma scenario_A:
  "snd (Apply (exampleFilter (Some 100) None volumeFilterModeExact (exampleQuery 80 800))
          ''2020-01-01'' [exampleSell ''30'' ''10''] [] [])
   = Inr [exampleSell ''20.0000000'' ''10'']"
  by (simp add: Apply_def exampleQuery_def example_defs fn_defs eval_simps)

text \<open>Scenario B: the same in ignore mode: the operation is dropped.\<close>

lemma scenario_B:
  "snd (Apply (exampleFilter (Some 100) None volumeFilterModeIgnore (exampleQuery 80 800))
          ''2020-01-01'' [exampleSell ''30'' ''10''] [] [])
   = Inr []"
  by (simp add: Apply_def exampleQuery_def example_defs fn_defs eval_simps
        volumeFilterModeIgnore_def volumeFilterModeExact_def)

text \<open>
  Scenario C: sells of 10 each against a cap of 15, exact mode, nothing on the books: the
  first is kept, the second trimmed to 5, a further one dropped.
\<close>

lemma scenario_C:
  "filterPass (exampleFilter (Some 15) None volumeFilterModeExact (exampleQuery 0 0))
     (dailyVolumes 0 0) (dailyVolumes 0 0) [] []
     [exampleSell ''10'' ''1'', exampleSell ''10'' ''1'', exampleSell ''10'' ''1'']
   = Inr ([exampleSell ''10'' ''1'', exampleSell ''5.0000000'' ''1''], dailyVolumes 15 15)"
  by (simp add: example_defs fn_defs eval_simps)

text \<open>
  Scenario D: a cap of 500 quote units, 450 on the books, a sell of 10 at price 10: exact
  mode trims the amount to 5.
\<close>

lemma scenario_D:
  "snd (Apply (exampleFilter None (Some 500) volumeFilterModeExact (exampleQuery 45 450))
          ''2020-01-01'' [exampleSell ''10'' ''10''] [] [])
   = Inr [exampleSell ''5.0000000'' ''10'']"
  by (simp add: Apply_def exampleQuery_def example_defs fn_defs eval_simps)

text \<open>Scenario E: a buy-side operation in the batch comes out as it went in.\<close>

lemma scenario_E:
  "snd (Apply (exampleFilter (Some 100) None volumeFilterModeExact (exampleQuery 100 1000))
          ''2020-01-01'' [exampleBuy ''30'' ''10'', exampleSell ''30'' ''10''] [] [])
   = Inr [exampleBuy ''30'' ''10'']"
  by (simp add: Apply_def exampleQuery_def example_defs fn_defs eval_simps)

end
